theory Spec2Isabelle
  imports Complex_Main "HOL-Library.Char_ord" "HOL-Library.List_Lexorder"
begin

section \<open>JavaScript values, strings, promises and effects\<close>

text \<open>
  A JavaScript string is a sequence of UTF-16 code units; a code unit is modelled as a
  natural number. \<open>lit\<close> turns an ASCII literal of the source into such a sequence.
\<close>

type_synonym jsstring = "nat list"

definition lit :: "string \<Rightarrow> jsstring" where
  "lit s = map of_char s"

text \<open>
  The values a response body or a message text can hold at run time. An object is the
  list of its own properties, looked up by key.
\<close>

datatype jsval =
    JUndefined
  | JNull
  | JBool bool
  | JNum int
  | JStr jsstring
  | JArr "jsval list"
  | JObj "(jsstring \<times> jsval) list"

text \<open>
  What a \<open>throw\<close> or a rejected promise carries: a \<open>TypeError\<close> of the language, an
  HTTP error status reported by the client library, a network failure, or any other
  exception with its message.
\<close>

datatype jserror =
    TypeError
  | HttpError nat
  | NetworkError
  | OtherError jsstring

text \<open>
  A promise observed from outside: it never settles, it is fulfilled with a value, or it
  is rejected with an error.
\<close>

datatype 'a promise = Pending | Fulfilled 'a | Rejected jserror

text \<open>
  A parsed CSV record: with the header option set, the parser turns each line into an
  object from column name to cell text.
\<close>

type_synonym csv_row = "(jsstring \<times> jsstring) list"

text \<open>The effects of the client code on its environment, in the order they happen.\<close>

datatype effect =
    HttpGet jsstring "(jsstring \<times> jsstring) list"
  | Fetch jsstring
  | ConsoleError jsstring jserror
  | ConsoleLog jsstring "csv_row list"
  | SetTimeout nat

fun is_string :: "jsval \<Rightarrow> bool" where
  "is_string (JStr s) = True"
| "is_string v = False"

fun is_rejected :: "'a promise \<Rightarrow> bool" where
  "is_rejected (Rejected e) = True"
| "is_rejected p = False"

section \<open>The query client: \<open>src/services/api.ts\<close>\<close>

definition BASE_IP :: jsstring where
  "BASE_IP = lit ''xxx.xxx.x.xx''"

definition PORT :: jsstring where
  "PORT = lit ''8000''"

definition ENDPOINT :: jsstring where
  "ENDPOINT = lit ''query''"

definition BASE_URL :: jsstring where
  "BASE_URL = lit ''http://'' @ BASE_IP @ lit '':'' @ PORT @ lit ''/'' @ ENDPOINT"

record axios_response =
  data :: jsval
  status :: nat

text \<open>
  The backend as the client sees it: the outcome of \<open>axios.get(url, {params})\<close>.
  The library rejects on a network failure and on a status outside 2xx; a request that is
  never answered stays pending.
\<close>

type_synonym backend = "jsstring \<Rightarrow> (jsstring \<times> jsstring) list \<Rightarrow> axios_response promise"

text \<open>
  The member expression \<open>response.data.answer\<close>: reading a property of \<open>undefined\<close>
  or \<open>null\<close> throws a \<open>TypeError\<close>; an object yields its property or
  \<open>undefined\<close>; any other value has no such property and yields \<open>undefined\<close>.
\<close>

fun get_answer :: "jsval \<Rightarrow> jserror + jsval" where
  "get_answer JUndefined = Inl TypeError"
| "get_answer JNull = Inl TypeError"
| "get_answer (JObj props) =
     Inr (case map_of props (lit ''answer'') of None \<Rightarrow> JUndefined | Some v \<Rightarrow> v)"
| "get_answer v = Inr JUndefined"

definition query_fallback :: jsstring where
  "query_fallback = lit ''Sorry, something went wrong while querying the data.''"

text \<open>
  \<open>queryCSV\<close>: the request is issued inside \<open>try\<close>; the \<open>catch\<close> logs the
  error and returns the fallback sentence. The result is the promise the \<open>async\<close>
  function returns, with the effects performed.
\<close>

definition queryCSV :: "backend \<Rightarrow> jsstring \<Rightarrow> jsval promise \<times> effect list" where
  "queryCSV axios_get question =
     (let params = [(lit ''question'', question)];
          request = HttpGet BASE_URL params
      in case axios_get BASE_URL params of
           Pending \<Rightarrow> (Pending, [request])
         | Rejected error \<Rightarrow>
             (Fulfilled (JStr query_fallback), [request, ConsoleError (lit ''API error:'') error])
         | Fulfilled response \<Rightarrow>
             (case get_answer (data response) of
                Inr answer \<Rightarrow> (Fulfilled answer, [request])
              | Inl error \<Rightarrow>
                  (Fulfilled (JStr query_fallback),
                   [request, ConsoleError (lit ''API error:'') error])))"

section \<open>The CSV loader: \<open>src/dataLoader.ts\<close>\<close>

record papa_config =
  header :: bool
  skipEmptyLines :: bool

text \<open>
  \<open>Papa.parse(csvText, config).data\<close> of the PapaParse library, a parameter of the
  model: the rows it returns, or the exception it raises.
\<close>

type_synonym papa = "jsstring \<Rightarrow> papa_config \<Rightarrow> jserror + csv_row list"

definition parseCSV :: "papa \<Rightarrow> jsstring \<Rightarrow> jserror + csv_row list" where
  "parseCSV papa_parse csvText = papa_parse csvText \<lparr>header = True, skipEmptyLines = True\<rparr>"

text \<open>
  The response of \<open>fetch\<close>: only its \<open>text()\<close> method is used, a promise of the body.
\<close>

record fetch_response =
  body_text :: "jsstring promise"

type_synonym fetcher = "jsstring \<Rightarrow> fetch_response promise"

text \<open>
  \<open>String.prototype.toLowerCase\<close> on the Basic Latin letters; the loader applies it
  to the four ASCII file names only.
\<close>

definition toLowerCase :: "jsstring \<Rightarrow> jsstring" where
  "toLowerCase s = map (\<lambda>c. if 65 \<le> c \<and> c \<le> 90 then c + 32 else c) s"

definition files :: "jsstring list" where
  "files = [lit ''Customers'', lit ''Detail'', lit ''Inventory'', lit ''Pricelist'']"

text \<open>
  The body of the \<open>try\<close> block for one file name: the rows to store, the error thrown
  by either \<open>await\<close> or by the parser, or \<open>Pending\<close> when an \<open>await\<close> never
  resumes.
\<close>

definition load_file :: "fetcher \<Rightarrow> papa \<Rightarrow> jsstring \<Rightarrow> csv_row list promise" where
  "load_file fetch papa_parse name =
     (case fetch (lit ''/'' @ name @ lit ''.csv'') of
        Pending \<Rightarrow> Pending
      | Rejected err \<Rightarrow> Rejected err
      | Fulfilled response \<Rightarrow>
          (case body_text response of
             Pending \<Rightarrow> Pending
           | Rejected err \<Rightarrow> Rejected err
           | Fulfilled txt \<Rightarrow>
               (case parseCSV papa_parse txt of
                  Inl err \<Rightarrow> Rejected err
                | Inr rows \<Rightarrow> Fulfilled rows)))"

type_synonym dataset = "jsstring \<rightharpoonup> csv_row list"

text \<open>
  The \<open>for\<close> loop over the file names, with the record \<open>data\<close> and the effects so far.
  \<open>None\<close>: the loop never finishes, because an \<open>await\<close> never resumes.
\<close>

fun loadData_loop ::
  "fetcher \<Rightarrow> papa \<Rightarrow> jsstring list \<Rightarrow> dataset \<times> effect list \<Rightarrow> (dataset \<times> effect list) option"
where
  "loadData_loop fetch papa_parse [] acc = Some acc"
| "loadData_loop fetch papa_parse (name # rest) (d, eff) =
     (case load_file fetch papa_parse name of
        Pending \<Rightarrow> None
      | Fulfilled rows \<Rightarrow>
          loadData_loop fetch papa_parse rest
            (d(toLowerCase name \<mapsto> rows), eff @ [Fetch (lit ''/'' @ name @ lit ''.csv'')])
      | Rejected err \<Rightarrow>
          loadData_loop fetch papa_parse rest
            (d(toLowerCase name \<mapsto> []),
             eff @ [Fetch (lit ''/'' @ name @ lit ''.csv''),
                    ConsoleError (lit ''Error loading '' @ name @ lit ''.csv:'') err]))"

text \<open>
  \<open>data.key.slice(0, 3)\<close>: a key that is absent reads as \<open>undefined\<close>, and calling
  \<open>slice\<close> on it throws a \<open>TypeError\<close>.
\<close>

definition sample :: "dataset \<Rightarrow> jsstring \<Rightarrow> jserror + csv_row list" where
  "sample d key = (case d key of None \<Rightarrow> Inl TypeError | Some rows \<Rightarrow> Inr (take 3 rows))"

definition loadData :: "fetcher \<Rightarrow> papa \<Rightarrow> (dataset \<times> effect list) promise" where
  "loadData fetch papa_parse =
     (case loadData_loop fetch papa_parse files (Map.empty, []) of
        None \<Rightarrow> Pending
      | Some (d, eff) \<Rightarrow>
          (case sample d (lit ''customers'') of
             Inl err \<Rightarrow> Rejected err
           | Inr cs \<Rightarrow>
          (case sample d (lit ''inventory'') of
             Inl err \<Rightarrow> Rejected err
           | Inr is \<Rightarrow>
          (case sample d (lit ''detail'') of
             Inl err \<Rightarrow> Rejected err
           | Inr ds \<Rightarrow>
          (case sample d (lit ''pricelist'') of
             Inl err \<Rightarrow> Rejected err
           | Inr ps \<Rightarrow>
               Fulfilled (d, eff @ [ConsoleLog (lit ''Customers sample:'') cs,
                                   ConsoleLog (lit ''Inventory sample:'') is,
                                   ConsoleLog (lit ''Details sample:'') ds,
                                   ConsoleLog (lit ''Pricelist sample:'') ps]))))))"

text \<open>What the loop stores for a file name: its rows, or the empty array when loading failed.\<close>

definition rows_of :: "fetcher \<Rightarrow> papa \<Rightarrow> jsstring \<Rightarrow> csv_row list" where
  "rows_of fetch papa_parse name =
     (case load_file fetch papa_parse name of Fulfilled rows \<Rightarrow> rows | _ \<Rightarrow> [])"

section \<open>The chat screen: \<open>handleSend\<close>\<close>

record message =
  sender :: jsstring
  msg_text :: jsval

text \<open>The three state variables of the component.\<close>

record chat_state =
  question :: jsstring
  messages :: "message list"
  isLoading :: bool

text \<open>
  The code units \<open>String.prototype.trim\<close> removes from both ends: the white space and
  line terminator characters of the language.
\<close>

definition js_whitespace :: "nat \<Rightarrow> bool" where
  "js_whitespace c \<longleftrightarrow>
     c = 9 \<or> c = 10 \<or> c = 11 \<or> c = 12 \<or> c = 13 \<or> c = 32 \<or> c = 160 \<or> c = 5760
     \<or> (8192 \<le> c \<and> c \<le> 8202) \<or> c = 8232 \<or> c = 8233 \<or> c = 8239 \<or> c = 8287
     \<or> c = 12288 \<or> c = 65279"

definition trim :: "jsstring \<Rightarrow> jsstring" where
  "trim s = rev (dropWhile js_whitespace (rev (dropWhile js_whitespace s)))"

text \<open>
  \<open>Promise.race\<close> of two promises: a pending one loses; when both settle, the
  scheduler decides which settles first, here the flag \<open>first_wins\<close>.
\<close>

definition promise_race :: "bool \<Rightarrow> 'a promise \<Rightarrow> 'a promise \<Rightarrow> 'a promise" where
  "promise_race first_wins p q =
     (case p of
        Pending \<Rightarrow> q
      | _ \<Rightarrow> (case q of Pending \<Rightarrow> p | _ \<Rightarrow> if first_wins then p else q))"

text \<open>The timer promise: it resolves, after 7000 ms, with the time-out sentence.\<close>

definition timeout_promise :: "jsval promise \<times> effect list" where
  "timeout_promise = (Fulfilled (JStr (lit ''Sorry, that request timed out.'')), [SetTimeout 7000])"

definition user_message :: "jsstring \<Rightarrow> message" where
  "user_message q = \<lparr>sender = lit ''user'', msg_text = JStr q\<rparr>"

definition bot_message :: "jsval \<Rightarrow> message" where
  "bot_message v = \<lparr>sender = lit ''bot'', msg_text = v\<rparr>"

text \<open>
  \<open>handleSend\<close>, from the state of the component to the state it leaves, with the
  effects performed. A handler whose \<open>await\<close> never resumes leaves the state as it was
  after the first two updates.
\<close>

definition handleSend :: "backend \<Rightarrow> bool \<Rightarrow> chat_state \<Rightarrow> chat_state \<times> effect list" where
  "handleSend axios_get query_first st =
     (if trim (question st) = [] then (st, [])
      else
        let st1 = st\<lparr>messages := messages st @ [user_message (question st)], isLoading := True\<rparr>;
            timeout = timeout_promise;
            query = queryCSV axios_get (question st);
            eff = snd timeout @ snd query
        in case promise_race query_first (fst query) (fst timeout) of
             Pending \<Rightarrow> (st1, eff)
           | Fulfilled response \<Rightarrow>
               (st1\<lparr>messages := messages st1 @ [bot_message response],
                    isLoading := False, question := []\<rparr>, eff)
           | Rejected error \<Rightarrow>
               (st1\<lparr>messages := messages st1
                        @ [bot_message (JStr (lit ''Sorry, something went wrong.''))],
                    isLoading := False, question := []\<rparr>, eff))"





section \<open>The query engine, modelled from the specification\<close>

text \<open>
  The backend that resolves a question (the intent classifier and the resolvers of
  sections 4.1 to 4.3 of the specification) is not among the source files; the definitions
  of this section follow the words of the specification.
\<close>

subsection \<open>Intent classifier\<close>

text \<open>
  Modelled from the spec: the classifier's result (section 4.1), whose code is missing: one of
  \<open>TopCustomer\<close>, \<open>TopItem\<close>, \<open>ItemsUnderPrice\<close> with its threshold, or
  \<open>Unrecognized\<close> with the original text. The threshold is the value of the decimal
  numeral, a rational number.
\<close>

datatype intent =
    TopCustomer
  | TopItem
  | ItemsUnderPrice rat
  | Unrecognized string

text \<open>
  Modelled from the spec: what a synonym pattern of the missing classifier maps to; a price pattern takes its
  threshold from the number that follows the phrase.
\<close>

datatype target = ToCustomer | ToItem | ToPrice

text \<open>
  Modelled from the spec: the fixed table of synonym patterns of the missing classifier, with the
  phrase fragments section 4.1 lists.
\<close>

definition pattern_table :: "(string \<times> target) list" where
  "pattern_table =
     [(''top customer'', ToCustomer), (''best customer'', ToCustomer),
      (''who spends the most'', ToCustomer),
      (''top item'', ToItem), (''best seller'', ToItem),
      (''under $'', ToPrice), (''below $'', ToPrice), (''less than $'', ToPrice)]"

text \<open>
  Modelled from the spec: case-insensitive matching in the missing classifier: a letter is compared in
  lower case.
\<close>

definition lower_char :: "char \<Rightarrow> char" where
  "lower_char c =
     (if CHR ''A'' \<le> c \<and> c \<le> CHR ''Z'' then char_of (of_char c + (32::nat)) else c)"

text \<open>
  Modelled from the spec: a phrase fragment of the missing classifier's table matches at a position of the
  text when the text continues with it there.
\<close>

fun starts_with :: "string \<Rightarrow> string \<Rightarrow> bool" where
  "starts_with [] s = True"
| "starts_with (p # ps) [] = False"
| "starts_with (p # ps) (c # cs) = (p = c \<and> starts_with ps cs)"

text \<open>
  Modelled from the spec: the occurrences of a phrase fragment anywhere in the text (so punctuation around it
  is tolerated), in the missing classifier: for each, the text that follows it.
\<close>

fun after_matches :: "string \<Rightarrow> string \<Rightarrow> string list" where
  "after_matches p [] = (if p = [] then [[]] else [])"
| "after_matches p (c # cs) =
     (if starts_with p (c # cs) then [drop (length p) (c # cs)] else []) @ after_matches p cs"

text \<open>
  Modelled from the spec: the decimal digits of the threshold \<open>N\<close> read by the missing classifier.
\<close>

definition is_digit :: "char \<Rightarrow> bool" where
  "is_digit c \<longleftrightarrow> CHR ''0'' \<le> c \<and> c \<le> CHR ''9''"

text \<open>
  Modelled from the spec: the value of a decimal digit of the threshold read by the missing classifier.
\<close>

definition digit_value :: "char \<Rightarrow> nat" where
  "digit_value c = of_char c - of_char CHR ''0''"

text \<open>
  Modelled from the spec: the value of a run of decimal digits of the threshold read by the missing
  classifier.
\<close>

definition digits_value :: "string \<Rightarrow> nat" where
  "digits_value ds = foldl (\<lambda>acc d. 10 * acc + digit_value d) 0 ds"

text \<open>
  Modelled from the spec: the threshold \<open>N\<close> of \<open>under $N\<close> in the missing classifier: digits,
  optionally followed by a point and a fraction; no digits, no number.
\<close>

definition parse_number :: "string \<Rightarrow> rat option" where
  "parse_number s =
     (let whole = takeWhile is_digit s; rest = dropWhile is_digit s
      in if whole = [] then None
         else case rest of
                c # after \<Rightarrow>
                  if c = CHR ''.'' then
                    (let frac = takeWhile is_digit after
                     in Some (of_nat (digits_value whole)
                              + of_nat (digits_value frac) / of_nat (10 ^ length frac)))
                  else Some (of_nat (digits_value whole))
              | [] \<Rightarrow> Some (of_nat (digits_value whole)))"

text \<open>
  Modelled from the spec: every match of a pattern of the table in the text, for the missing classifier,
  with the length of its literal; a price pattern matches only where a number follows.
\<close>

definition candidates :: "string \<Rightarrow> (nat \<times> intent) list" where
  "candidates txt =
     concat (map (\<lambda>(literal, tgt).
       concat (map (\<lambda>rest.
         case tgt of
           ToCustomer \<Rightarrow> [(length literal, TopCustomer)]
         | ToItem \<Rightarrow> [(length literal, TopItem)]
         | ToPrice \<Rightarrow>
             (case parse_number rest of
                None \<Rightarrow> []
              | Some n \<Rightarrow> [(length literal, ItemsUnderPrice n)]))
         (after_matches literal txt)))
       pattern_table)"

text \<open>
  Modelled from the spec: of several matches the missing classifier takes the most specific, the one with
  the longest literal.
\<close>

fun longest :: "(nat \<times> intent) list \<Rightarrow> (nat \<times> intent) option" where
  "longest [] = None"
| "longest (c # cs) =
     (case longest cs of
        None \<Rightarrow> Some c
      | Some best \<Rightarrow> if fst best > fst c then Some best else Some c)"

text \<open>
  Modelled from the spec: the intent classifier (section 4.1), whose code is missing: case-insensitive
  matching against the table, the longest literal match wins, no match yields
  \<open>Unrecognized\<close> with the original text.
\<close>

definition classify :: "string \<Rightarrow> intent" where
  "classify question_text =
     (case longest (candidates (map lower_char question_text)) of
        None \<Rightarrow> Unrecognized question_text
      | Some (n, i) \<Rightarrow> i)"

subsection \<open>Data model and the top-customer resolver\<close>

text \<open>
  Modelled from the spec: the error taxonomy of the missing engine (section 7).
\<close>

datatype engine_error = NoDataError | MalformedRowError | InternalComputationError

text \<open>
  Modelled from the spec: a row of the customer table (section 3) of the missing engine.
\<close>

record customer =
  customer_id :: string
  display_name :: string

text \<open>
  Modelled from the spec: an order line (section 3) of the missing engine; a numeric field that is missing
  or malformed is \<open>None\<close>.
\<close>

record order_line =
  line_customer :: string
  line_item :: string
  quantity :: "rat option"
  unit_price :: "rat option"
  order_date :: "string option"

text \<open>
  Modelled from the spec: a row of the inventory table (section 3) of the missing engine.
\<close>

record inventory_item =
  item_id :: string
  item_name :: string
  stock_level :: "rat option"

text \<open>
  Modelled from the spec: a row of the price list (section 3) of the missing engine.
\<close>

record price_list_entry =
  priced_item :: string
  price :: "rat option"

text \<open>
  Modelled from the spec: the immutable snapshot of the four tables (section 3) read by the missing engine.
\<close>

record snapshot =
  customers :: "customer list"
  order_lines :: "order_line list"
  inventory :: "inventory_item list"
  price_list :: "price_list_entry list"

text \<open>
  Modelled from the spec: what one order line contributes to \<open>customerSpend\<close> in the missing data
  access layer (section 4.2): quantity times unit price for its customer; a row with a
  malformed numeric field, or whose customer is not in the customer table, contributes
  nothing.
\<close>

definition line_spend :: "snapshot \<Rightarrow> order_line \<Rightarrow> (string \<times> rat) option" where
  "line_spend snap line =
     (case (quantity line, unit_price line) of
        (Some q, Some p) \<Rightarrow>
          if line_customer line \<in> set (map customer_id (customers snap))
          then Some (line_customer line, q * p) else None
      | _ \<Rightarrow> None)"

text \<open>
  Modelled from the spec: adding a contribution to the running total of a customer, in the missing data
  access layer.
\<close>

fun add_spend :: "string \<Rightarrow> rat \<Rightarrow> (string \<times> rat) list \<Rightarrow> (string \<times> rat) list" where
  "add_spend cid amount [] = [(cid, amount)]"
| "add_spend cid amount ((k, subtotal) # rest) =
     (if k = cid then (k, subtotal + amount) # rest else (k, subtotal) # add_spend cid amount rest)"

text \<open>
  Modelled from the spec: \<open>customerSpend()\<close> of the missing data access layer (section 4.2): the
  mapping from customer identifier to total spend, summed over all order lines.
\<close>

definition customerSpend :: "snapshot \<Rightarrow> (string \<times> rat) list" where
  "customerSpend snap =
     foldl (\<lambda>acc line. case line_spend snap line of
                          None \<Rightarrow> acc
                        | Some (cid, amount) \<Rightarrow> add_spend cid amount acc)
       [] (order_lines snap)"

text \<open>
  Modelled from the spec: the selection rule of the missing resolver (section 4.3): the larger total wins,
  and of two equal totals the lexicographically smaller identifier.
\<close>

definition better :: "string \<times> rat \<Rightarrow> string \<times> rat \<Rightarrow> string \<times> rat" where
  "better best cand =
     (if snd best < snd cand \<or> (snd cand = snd best \<and> fst cand < fst best) then cand else best)"

text \<open>
  Modelled from the spec: \<open>TopCustomerResolver\<close> (section 4.3), whose code is missing: it fails with
  \<open>NoDataError\<close> when the customer table is empty or there is no spend at all, and
  otherwise selects the entry of \<open>customerSpend\<close> with the maximum total, ties broken
  by the smallest identifier.
\<close>

definition TopCustomerResolver :: "snapshot \<Rightarrow> engine_error + string \<times> rat" where
  "TopCustomerResolver snap =
     (if customers snap = [] then Inl NoDataError
      else case customerSpend snap of
             [] \<Rightarrow> Inl NoDataError
           | e # es \<Rightarrow> Inr (foldl better e es))"

section \<open>Sample environments\<close>

text \<open>
  Concrete servers and parsers on which the theorems below are instantiated: a parser that
  returns one row recording the text it was given, a server that answers every path with
  the path itself, one that fails on \<open>/Detail.csv\<close>, and a parser that raises on the
  inventory file.
\<close>

definition echo_papa :: papa where
  "echo_papa txt cfg = (if header cfg then Inr [[(lit ''path'', txt)]] else Inr [])"

definition all_ok_fetch :: fetcher where
  "all_ok_fetch url = Fulfilled \<lparr>body_text = Fulfilled url\<rparr>"

definition detail_down_fetch :: fetcher where
  "detail_down_fetch url =
     (if url = lit ''/Detail.csv'' then Rejected NetworkError
      else Fulfilled \<lparr>body_text = Fulfilled url\<rparr>)"


text \<open>
  A snapshot in which two customers share the maximum total spend of 20; one order line is
  malformed and one refers to an unknown customer.
\<close>

definition tied_snapshot :: snapshot where
  "tied_snapshot =
     \<lparr>customers = [\<lparr>customer_id = ''C002'', display_name = ''Bea''\<rparr>,
                   \<lparr>customer_id = ''C001'', display_name = ''Al''\<rparr>,
                   \<lparr>customer_id = ''C003'', display_name = ''Cy''\<rparr>],
      order_lines =
        [\<lparr>line_customer = ''C002'', line_item = ''I1'', quantity = Some 2, unit_price = Some 10,
          order_date = None\<rparr>,
         \<lparr>line_customer = ''C003'', line_item = ''I2'', quantity = Some 1, unit_price = Some 10,
          order_date = None\<rparr>,
         \<lparr>line_customer = ''C001'', line_item = ''I2'', quantity = Some 3, unit_price = Some 5,
          order_date = Some ''2024-01-05''\<rparr>,
         \<lparr>line_customer = ''C001'', line_item = ''I1'', quantity = Some 1, unit_price = Some 5,
          order_date = None\<rparr>,
         \<lparr>line_customer = ''C003'', line_item = ''I1'', quantity = None, unit_price = Some 99,
          order_date = None\<rparr>,
         \<lparr>line_customer = ''C999'', line_item = ''I1'', quantity = Some 50, unit_price = Some 50,
          order_date = None\<rparr>],
      inventory = [], price_list = []\<rparr>"



text \<open>
  Backends: one that cannot be reached, one that answers with the empty object, one
  that answers with a page of text instead of JSON (the client library then hands the body
  over as a string), and one that answers with a well-formed payload.
\<close>

definition offline_backend :: backend where
  "offline_backend url params = Rejected NetworkError"

definition empty_body_backend :: backend where
  "empty_body_backend url params = Fulfilled \<lparr>data = JObj [], status = 200\<rparr>"

definition html_page_backend :: backend where
  "html_page_backend url params =
     Fulfilled \<lparr>data = JStr (lit ''<html>It works!</html>''), status = 200\<rparr>"

definition acme_backend :: backend where
  "acme_backend url params =
     Fulfilled \<lparr>data = JObj [(lit ''answer'', JStr (lit ''Acme is the top customer''))],
                status = 200\<rparr>"

section \<open>Properties of the query client\<close>

lemma queryCSV_never_rejects: "\<not> is_rejected (fst (queryCSV axios_get q))"
  by (simp add: queryCSV_def Let_def split: promise.split sum.split)

lemma queryCSV_caught_error:
  "axios_get BASE_URL [(lit ''question'', q)] = Rejected error \<Longrightarrow>
   fst (queryCSV axios_get q) = Fulfilled (JStr query_fallback)"
  by (simp add: queryCSV_def Let_def)

lemma queryCSV_null_body:
  "axios_get BASE_URL [(lit ''question'', q)] = Fulfilled response \<Longrightarrow>
   data response = JNull \<or> data response = JUndefined \<Longrightarrow>
   fst (queryCSV axios_get q) = Fulfilled (JStr query_fallback)"
  by (auto simp add: queryCSV_def Let_def)

text \<open>
  Claim C1 (fails on the code). The claim says that for every outcome of the backend
  call, a malformed response included, \<open>queryCSV\<close> returns a string. A backend that
  answers with status 200 and the body \<open>{}\<close> (an object with no \<open>answer\<close>
  property), or with a page of text, raises nothing, so nothing is caught, and the function
  resolves to \<open>undefined\<close>, which is not a string.
\<close>

theorem queryCSV_malformed_payload:
  "fst (queryCSV empty_body_backend (lit ''top customer'')) = Fulfilled JUndefined
   \<and> fst (queryCSV html_page_backend (lit ''top customer'')) = Fulfilled JUndefined
   \<and> \<not> is_string JUndefined"
  by (simp add: queryCSV_def empty_body_backend_def html_page_backend_def Let_def)

text \<open>
  Claim C2. When the backend call succeeds, that is the request is fulfilled with a
  response whose body is a structured payload carrying an \<open>answer\<close> field,
  \<open>queryCSV\<close> resolves to exactly the value of that field.
\<close>

theorem queryCSV_returns_answer:
  assumes "axios_get BASE_URL [(lit ''question'', q)] = Fulfilled response"
    and "data response = JObj props"
    and "map_of props (lit ''answer'') = Some answer"
  shows "fst (queryCSV axios_get q) = Fulfilled answer"
  using assms by (simp add: queryCSV_def Let_def)

theorem queryCSV_returns_answer_witness:
  "fst (queryCSV acme_backend (lit ''top customer''))
     = Fulfilled (JStr (lit ''Acme is the top customer''))"
  using queryCSV_returns_answer
    [of acme_backend "lit ''top customer''"
        "\<lparr>data = JObj [(lit ''answer'', JStr (lit ''Acme is the top customer''))], status = 200\<rparr>"
        "[(lit ''answer'', JStr (lit ''Acme is the top customer''))]"
        "JStr (lit ''Acme is the top customer'')"]
  by (simp add: acme_backend_def)

section \<open>Properties of the CSV loader\<close>

lemma lower_files:
  "toLowerCase (lit ''Customers'') = lit ''customers''"
  "toLowerCase (lit ''Detail'') = lit ''detail''"
  "toLowerCase (lit ''Inventory'') = lit ''inventory''"
  "toLowerCase (lit ''Pricelist'') = lit ''pricelist''"
  by (simp_all add: toLowerCase_def lit_def)

lemma keys_distinct:
  "distinct [lit ''customers'', lit ''detail'', lit ''inventory'', lit ''pricelist'']"
  by (simp add: lit_def)

lemma loop_completes:
  "\<forall>n \<in> set names. load_file f p n \<noteq> Pending \<Longrightarrow>
   \<exists>r. loadData_loop f p names acc = Some r"
proof (induction names arbitrary: acc)
  case Nil
  then show ?case by simp
next
  case (Cons n names)
  obtain d eff where acc: "acc = (d, eff)" by (cases acc)
  from Cons.prems have rest: "\<forall>n \<in> set names. load_file f p n \<noteq> Pending"
    and here: "load_file f p n \<noteq> Pending" by simp_all
  show ?case
    using here Cons.IH [OF rest] by (cases "load_file f p n") (simp_all add: acc)
qed

lemma loop_other_key:
  "loadData_loop f p names (d, eff) = Some (d', eff') \<Longrightarrow>
   k \<notin> toLowerCase ` set names \<Longrightarrow> d' k = d k"
  by (induction names arbitrary: d eff) (auto split: promise.splits)

lemma loop_key:
  "loadData_loop f p names (d, eff) = Some (d', eff') \<Longrightarrow>
   distinct (map toLowerCase names) \<Longrightarrow> n \<in> set names \<Longrightarrow>
   d' (toLowerCase n) = Some (rows_of f p n)"
proof (induction names arbitrary: d eff)
  case Nil
  then show ?case by simp
next
  case (Cons m names)
  show ?case
  proof (cases "n = m")
    case True
    have fresh: "toLowerCase m \<notin> toLowerCase ` set names"
      using Cons.prems(2) by simp
    show ?thesis
      using Cons.prems(1) fresh True
      by (auto simp: rows_of_def split: promise.splits dest: loop_other_key)
  next
    case False
    then have "n \<in> set names" using Cons.prems(3) by simp
    moreover have "distinct (map toLowerCase names)" using Cons.prems(2) by simp
    ultimately show ?thesis
      using Cons.prems(1) Cons.IH by (auto split: promise.splits)
  qed
qed

lemma loop_dom:
  "loadData_loop f p names (d, eff) = Some (d', eff') \<Longrightarrow>
   dom d' = dom d \<union> toLowerCase ` set names"
  by (induction names arbitrary: d eff) (auto split: promise.splits)



lemma files_keys:
  "map toLowerCase files = [lit ''customers'', lit ''detail'', lit ''inventory'', lit ''pricelist'']"
  by (simp add: files_def lower_files)

lemma files_distinct: "distinct (map toLowerCase files)"
  by (simp only: files_keys keys_distinct)

lemma files_key_set:
  "toLowerCase ` set files = {lit ''customers'', lit ''detail'', lit ''inventory'', lit ''pricelist''}"
  using arg_cong [OF files_keys, of set] by (simp only: set_map list.set)

lemma loadData_after_loop:
  assumes "loadData_loop f p files (Map.empty, []) = Some (d, eff)"
  shows "\<exists>logs. loadData f p = Fulfilled (d, eff @ logs)"
proof -
  have "dom d = {lit ''customers'', lit ''detail'', lit ''inventory'', lit ''pricelist''}"
    using loop_dom [OF assms] by (simp add: files_key_set)
  then have "lit ''customers'' \<in> dom d" "lit ''inventory'' \<in> dom d"
    "lit ''detail'' \<in> dom d" "lit ''pricelist'' \<in> dom d"
    by simp_all
  then obtain cs ivs ds ps where
    "d (lit ''customers'') = Some cs" "d (lit ''inventory'') = Some ivs"
    "d (lit ''detail'') = Some ds" "d (lit ''pricelist'') = Some ps"
    by blast
  then show ?thesis
    by (simp add: loadData_def assms sample_def)
qed

lemma loadData_cases:
  "(loadData f p = Pending \<and> loadData_loop f p files (Map.empty, []) = None)
   \<or> (\<exists>d eff logs. loadData_loop f p files (Map.empty, []) = Some (d, eff)
         \<and> loadData f p = Fulfilled (d, eff @ logs))"
proof (cases "loadData_loop f p files (Map.empty, [])")
  case None
  then show ?thesis by (simp add: loadData_def)
next
  case (Some r)
  obtain d eff where "r = (d, eff)" by (cases r)
  with Some loadData_after_loop [of f p d eff] show ?thesis by auto
qed

text \<open>
  Claim C3. When every file is fetched, read and parsed, \<open>loadData\<close> returns a record
  with exactly the four keys \<open>customers\<close>, \<open>detail\<close>, \<open>inventory\<close> and
  \<open>pricelist\<close>, each bound to the rows the parser returns for the text of the file of
  that name, parsed with the header option set.
\<close>

theorem loadData_all_loaded:
  assumes "\<forall>name \<in> set files. \<exists>response.
             fetch (lit ''/'' @ name @ lit ''.csv'') = Fulfilled response
             \<and> body_text response = Fulfilled (csv name)
             \<and> papa_parse (csv name) \<lparr>header = True, skipEmptyLines = True\<rparr> = Inr (rows name)"
  shows "\<exists>d eff. loadData fetch papa_parse = Fulfilled (d, eff)
           \<and> dom d = {lit ''customers'', lit ''detail'', lit ''inventory'', lit ''pricelist''}
           \<and> card (dom d) = 4
           \<and> d (lit ''customers'') = Some (rows (lit ''Customers''))
           \<and> d (lit ''detail'') = Some (rows (lit ''Detail''))
           \<and> d (lit ''inventory'') = Some (rows (lit ''Inventory''))
           \<and> d (lit ''pricelist'') = Some (rows (lit ''Pricelist''))"
proof -
  have ok: "load_file fetch papa_parse name = Fulfilled (rows name)" if "name \<in> set files" for name
    using assms that by (auto simp: load_file_def parseCSV_def)
  then have "\<forall>name \<in> set files. load_file fetch papa_parse name \<noteq> Pending"
    by simp
  then obtain r where "loadData_loop fetch papa_parse files (Map.empty, []) = Some r"
    using loop_completes by blast
  then obtain d eff0 where loop: "loadData_loop fetch papa_parse files (Map.empty, []) = Some (d, eff0)"
    by (cases r) simp
  then obtain logs where res: "loadData fetch papa_parse = Fulfilled (d, eff0 @ logs)"
    using loadData_after_loop by blast
  have val: "d (toLowerCase name) = Some (rows name)" if "name \<in> set files" for name
    using loop_key [OF loop files_distinct that] ok [OF that] by (simp add: rows_of_def)
  have dom: "dom d = {lit ''customers'', lit ''detail'', lit ''inventory'', lit ''pricelist''}"
    using loop_dom [OF loop] by (simp add: files_key_set)
  have "card (dom d) = card (set [lit ''customers'', lit ''detail'', lit ''inventory'', lit ''pricelist''])"
    by (simp add: dom)
  also have "\<dots> = 4"
    using distinct_card [OF keys_distinct] by simp
  finally have card: "card (dom d) = 4" .
  have "d (lit ''customers'') = Some (rows (lit ''Customers''))"
    "d (lit ''detail'') = Some (rows (lit ''Detail''))"
    "d (lit ''inventory'') = Some (rows (lit ''Inventory''))"
    "d (lit ''pricelist'') = Some (rows (lit ''Pricelist''))"
    using val [of "lit ''Customers''"] val [of "lit ''Detail''"]
      val [of "lit ''Inventory''"] val [of "lit ''Pricelist''"]
    by (simp_all add: files_def lower_files)
  with res dom card show ?thesis by blast
qed

theorem loadData_all_loaded_witness:
  "\<exists>d eff. loadData all_ok_fetch echo_papa = Fulfilled (d, eff)
     \<and> dom d = {lit ''customers'', lit ''detail'', lit ''inventory'', lit ''pricelist''}
     \<and> card (dom d) = 4
     \<and> d (lit ''customers'') = Some [[(lit ''path'', lit ''/Customers.csv'')]]
     \<and> d (lit ''detail'') = Some [[(lit ''path'', lit ''/Detail.csv'')]]
     \<and> d (lit ''inventory'') = Some [[(lit ''path'', lit ''/Inventory.csv'')]]
     \<and> d (lit ''pricelist'') = Some [[(lit ''path'', lit ''/Pricelist.csv'')]]"
  using loadData_all_loaded
    [of all_ok_fetch "\<lambda>name. lit ''/'' @ name @ lit ''.csv''" echo_papa
        "\<lambda>name. [[(lit ''path'', lit ''/'' @ name @ lit ''.csv'')]]"]
  by (simp add: all_ok_fetch_def echo_papa_def files_def lit_def)



text \<open>
  Claim C9. \<open>loadData\<close> never rejects: whatever the fetches do, a result it returns
  binds all four keys, so none of the four \<open>slice\<close> calls after the loop reads a
  missing key; and it does return whenever no \<open>await\<close> hangs.
\<close>

theorem loadData_keys_always_bound:
  "\<not> is_rejected (loadData fetch papa_parse)
   \<and> (\<forall>d eff. loadData fetch papa_parse = Fulfilled (d, eff) \<longrightarrow>
         dom d = {lit ''customers'', lit ''detail'', lit ''inventory'', lit ''pricelist''}
         \<and> sample d (lit ''customers'') \<noteq> Inl TypeError
         \<and> sample d (lit ''inventory'') \<noteq> Inl TypeError
         \<and> sample d (lit ''detail'') \<noteq> Inl TypeError
         \<and> sample d (lit ''pricelist'') \<noteq> Inl TypeError)
   \<and> ((\<forall>name \<in> set files. load_file fetch papa_parse name \<noteq> Pending) \<longrightarrow>
         (\<exists>d eff. loadData fetch papa_parse = Fulfilled (d, eff)))"
proof (intro conjI allI impI)
  show "\<not> is_rejected (loadData fetch papa_parse)"
    using loadData_cases [of fetch papa_parse] by auto
next
  fix d eff
  assume res: "loadData fetch papa_parse = Fulfilled (d, eff)"
  then obtain eff0 where "loadData_loop fetch papa_parse files (Map.empty, []) = Some (d, eff0)"
    using loadData_cases [of fetch papa_parse] by auto
  from loop_dom [OF this]
  show dom: "dom d = {lit ''customers'', lit ''detail'', lit ''inventory'', lit ''pricelist''}"
    by (simp add: files_key_set)
  then have "lit ''customers'' \<in> dom d" "lit ''inventory'' \<in> dom d"
    "lit ''detail'' \<in> dom d" "lit ''pricelist'' \<in> dom d"
    by simp_all
  then show "sample d (lit ''customers'') \<noteq> Inl TypeError"
    "sample d (lit ''inventory'') \<noteq> Inl TypeError"
    "sample d (lit ''detail'') \<noteq> Inl TypeError"
    "sample d (lit ''pricelist'') \<noteq> Inl TypeError"
    by (auto simp: sample_def)
next
  assume "\<forall>name \<in> set files. load_file fetch papa_parse name \<noteq> Pending"
  from loop_completes [OF this, of "(Map.empty, [])"]
  show "\<exists>d eff. loadData fetch papa_parse = Fulfilled (d, eff)"
    using loadData_cases [of fetch papa_parse] by auto
qed

theorem loadData_keys_always_bound_witness:
  "list_all (\<lambda>name. load_file detail_down_fetch echo_papa name \<noteq> Pending) files
   \<and> \<not> is_rejected (loadData detail_down_fetch echo_papa)
   \<and> (\<exists>d eff. loadData detail_down_fetch echo_papa = Fulfilled (d, eff)
         \<and> dom d = {lit ''customers'', lit ''detail'', lit ''inventory'', lit ''pricelist''})"
  using loadData_keys_always_bound [of detail_down_fetch echo_papa]
  by (auto simp add: detail_down_fetch_def echo_papa_def files_def
        load_file_def parseCSV_def lit_def)

section \<open>Properties of the chat screen\<close>

lemma trim_empty_iff: "trim s = [] \<longleftrightarrow> (\<forall>c \<in> set s. js_whitespace c)"
proof
  assume "trim s = []"
  then have inner: "\<forall>c \<in> set (dropWhile js_whitespace s). js_whitespace c"
    by (simp add: trim_def dropWhile_eq_Nil_conv)
  have "dropWhile js_whitespace s = []"
  proof (rule ccontr)
    assume ne: "dropWhile js_whitespace s \<noteq> []"
    then have "\<not> js_whitespace (hd (dropWhile js_whitespace s))"
      by (rule hd_dropWhile)
    moreover have "hd (dropWhile js_whitespace s) \<in> set (dropWhile js_whitespace s)"
      using ne by simp
    ultimately show False using inner by blast
  qed
  then show "\<forall>c \<in> set s. js_whitespace c"
    by (simp add: dropWhile_eq_Nil_conv)
next
  assume "\<forall>c \<in> set s. js_whitespace c"
  then have "dropWhile js_whitespace s = []"
    by (simp add: dropWhile_eq_Nil_conv)
  then show "trim s = []" by (simp only: trim_def rev.simps dropWhile.simps)
qed

lemma race_never_rejects:
  "\<not> is_rejected (promise_race query_first (fst (queryCSV axios_get q)) (fst timeout_promise))"
  using queryCSV_never_rejects [of axios_get q]
  by (cases "fst (queryCSV axios_get q)") (simp_all add: promise_race_def timeout_promise_def)

lemma race_settles:
  "promise_race query_first p (fst timeout_promise) \<noteq> Pending"
  by (cases p) (simp_all add: promise_race_def timeout_promise_def)

text \<open>
  The order-only part of the time-out: when the request never settles, or the timer settles
  first, the bot message is the time-out sentence, and the timer was set to 7000 ms.
\<close>

lemma handleSend_timeout:
  assumes "trim (question st) \<noteq> []"
    and "fst (queryCSV axios_get (question st)) = Pending \<or> \<not> query_first"
  shows "messages (fst (handleSend axios_get query_first st))
           = messages st @ [user_message (question st),
                            bot_message (JStr (lit ''Sorry, that request timed out.''))]"
    and "SetTimeout 7000 \<in> set (snd (handleSend axios_get query_first st))"
  using assms
  by (auto simp add: handleSend_def Let_def promise_race_def timeout_promise_def
      split: promise.splits)






text \<open>
  Claim C8. When the question is empty or holds only white space, \<open>handleSend\<close>
  returns at once: the state (question, message history, loading flag) is the one it was
  called in, and no effect, in particular no backend request, has been performed.
\<close>

theorem handleSend_blank_question:
  assumes "\<forall>c \<in> set (question st). js_whitespace c"
  shows "handleSend axios_get query_first st = (st, [])"
  using assms by (simp add: handleSend_def trim_empty_iff)

theorem handleSend_blank_question_witness:
  "list_all js_whitespace [32, 9, 160]
   \<and> handleSend offline_backend True
        \<lparr>question = [32, 9, 160], messages = [user_message (lit ''hi'')], isLoading = False\<rparr>
      = (\<lparr>question = [32, 9, 160], messages = [user_message (lit ''hi'')], isLoading = False\<rparr>, [])"
  using handleSend_blank_question
    [of "\<lparr>question = [32, 9, 160], messages = [user_message (lit ''hi'')], isLoading = False\<rparr>"
        offline_backend True]
  by (simp add: js_whitespace_def)

text \<open>
  Claim C10 as stated fails: a question that is not empty but blank, here a single space,
  is stopped by the guard on the trimmed question, and nothing is appended to the history.
\<close>

theorem handleSend_nonempty_blank_counterexample:
  "question \<lparr>question = [32], messages = [], isLoading = False\<rparr> \<noteq> []
   \<and> messages (fst (handleSend empty_body_backend True
        \<lparr>question = [32], messages = [], isLoading = False\<rparr>)) = []"
  by (simp add: handleSend_def trim_def js_whitespace_def)

text \<open>
  Claim C10, amended. For every question that is not blank (not empty after trimming),
  the raced promise is fulfilled, never rejected and never pending, so the \<open>catch\<close>
  branch is not taken, and \<open>handleSend\<close> appends exactly one user message followed by
  exactly one bot message, clears the input and resets the loading flag.
\<close>

theorem handleSend_one_answer:
  assumes "trim (question st) \<noteq> []"
  shows "\<exists>response.
           promise_race query_first (fst (queryCSV axios_get (question st))) (fst timeout_promise)
             = Fulfilled response
           \<and> fst (handleSend axios_get query_first st)
             = st\<lparr>messages := messages st @ [user_message (question st), bot_message response],
                  isLoading := False, question := []\<rparr>"
proof -
  let ?race = "promise_race query_first (fst (queryCSV axios_get (question st))) (fst timeout_promise)"
  have "\<not> is_rejected ?race" by (rule race_never_rejects)
  moreover have "?race \<noteq> Pending" by (rule race_settles)
  ultimately obtain response where race: "?race = Fulfilled response"
    by (cases ?race) simp_all
  have "fst (handleSend axios_get query_first st)
          = st\<lparr>messages := messages st @ [user_message (question st), bot_message response],
               isLoading := False, question := []\<rparr>"
    using assms race by (simp add: handleSend_def Let_def)
  with race show ?thesis by blast
qed

theorem handleSend_one_answer_witness:
  "trim (lit ''top item'') \<noteq> []
   \<and> fst (handleSend offline_backend True
        \<lparr>question = lit ''top item'', messages = [], isLoading = False\<rparr>)
      = \<lparr>question = [],
         messages = [user_message (lit ''top item''), bot_message (JStr query_fallback)],
         isLoading = False\<rparr>"
  using handleSend_one_answer
    [of "\<lparr>question = lit ''top item'', messages = [], isLoading = False\<rparr>"
        True offline_backend]
  by (simp add: trim_def js_whitespace_def lit_def queryCSV_def timeout_promise_def
        promise_race_def offline_backend_def Let_def)

section \<open>Properties of the modelled query engine\<close>

text \<open>
  Claim C6. The classifier maps the question \<open>Show items under $5\<close> to the intent
  \<open>ItemsUnderPrice\<close> with threshold 5.
\<close>

theorem classify_items_under_5: "classify ''Show items under $5'' = ItemsUnderPrice 5"
  by (simp add: classify_def candidates_def pattern_table_def lower_char_def parse_number_def
      is_digit_def digits_value_def digit_value_def Let_def)

lemma add_spend_keys: "fst ` set (add_spend cid amount acc) = insert cid (fst ` set acc)"
  by (induction cid amount acc rule: add_spend.induct) auto

lemma line_spend_known:
  "line_spend snap line = Some (cid, amount) \<Longrightarrow> cid \<in> customer_id ` set (customers snap)"
  by (auto simp: line_spend_def split: option.splits if_splits)

lemma spend_fold_keys:
  "fst ` set acc \<subseteq> customer_id ` set (customers snap) \<Longrightarrow>
   fst ` set (foldl (\<lambda>acc line. case line_spend snap line of
                          None \<Rightarrow> acc
                        | Some (cid, amount) \<Rightarrow> add_spend cid amount acc) acc rows)
     \<subseteq> customer_id ` set (customers snap)"
proof (induction rows arbitrary: acc)
  case Nil
  then show ?case by simp
next
  case (Cons line rows)
  show ?case
  proof (cases "line_spend snap line")
    case None
    with Cons show ?thesis by simp
  next
    case (Some entry)
    obtain cid amount where entry: "entry = (cid, amount)" by (cases entry)
    with Some have "cid \<in> customer_id ` set (customers snap)"
      by (auto dest: line_spend_known)
    with Cons.prems have "fst ` set (add_spend cid amount acc) \<subseteq> customer_id ` set (customers snap)"
      by (simp add: add_spend_keys)
    from Cons.IH [OF this] Some entry show ?thesis by simp
  qed
qed

lemma customerSpend_keys:
  "fst ` set (customerSpend snap) \<subseteq> customer_id ` set (customers snap)"
  unfolding customerSpend_def by (rule spend_fold_keys) simp

lemma foldl_better:
  "foldl better e es \<in> set (e # es)
   \<and> (\<forall>c \<in> set (e # es). snd c \<le> snd (foldl better e es)
         \<and> (snd c = snd (foldl better e es) \<longrightarrow> fst (foldl better e es) \<le> fst c))"
proof (induction es arbitrary: e)
  case Nil
  show ?case by simp
next
  case (Cons x es)
  let ?r = "foldl better (better e x) es"
  from Cons.IH [of "better e x"] have mem: "?r \<in> set (better e x # es)"
    and dom: "\<forall>c \<in> set (better e x # es). snd c \<le> snd ?r \<and> (snd c = snd ?r \<longrightarrow> fst ?r \<le> fst c)"
    by simp_all
  have m: "?r \<in> set (e # x # es)"
    using mem by (auto simp: better_def split: if_splits)
  have top: "snd (better e x) \<le> snd ?r \<and> (snd (better e x) = snd ?r \<longrightarrow> fst ?r \<le> fst (better e x))"
    using dom by simp
  have de: "snd e \<le> snd ?r \<and> (snd e = snd ?r \<longrightarrow> fst ?r \<le> fst e)"
    using top by (auto simp: better_def split: if_splits)
  have dx: "snd x \<le> snd ?r \<and> (snd x = snd ?r \<longrightarrow> fst ?r \<le> fst x)"
    using top by (auto simp: better_def split: if_splits)
  from m de dx dom show ?case by simp
qed

text \<open>
  Claim C7. In a snapshot where two or more customers share the maximum total spend
  \<open>m\<close>, \<open>TopCustomerResolver\<close> succeeds and returns a customer whose total is
  \<open>m\<close> and whose identifier is lexicographically smallest among the customers with
  total \<open>m\<close>. The resolver is a function of the snapshot alone, so every invocation on
  the same snapshot returns this customer.
\<close>

theorem TopCustomerResolver_tie_break:
  assumes "(a, m) \<in> set (customerSpend snap)"
    and "(b, m) \<in> set (customerSpend snap)"
    and "a \<noteq> b"
    and "\<forall>entry \<in> set (customerSpend snap). snd entry \<le> m"
  shows "\<exists>c. TopCustomerResolver snap = Inr (c, m)
           \<and> (c, m) \<in> set (customerSpend snap)
           \<and> (\<forall>i. (i, m) \<in> set (customerSpend snap) \<longrightarrow> c \<le> i)"
proof -
  have "a \<in> fst ` set (customerSpend snap)"
    using assms(1) by force
  then have known: "customers snap \<noteq> []"
    using customerSpend_keys [of snap] by auto
  from assms(1) obtain e es where cs: "customerSpend snap = e # es"
    by (cases "customerSpend snap") auto
  let ?r = "foldl better e es"
  have res: "TopCustomerResolver snap = Inr ?r"
    using known cs by (simp add: TopCustomerResolver_def)
  have mem: "?r \<in> set (customerSpend snap)"
    and dom: "\<forall>c \<in> set (customerSpend snap). snd c \<le> snd ?r \<and> (snd c = snd ?r \<longrightarrow> fst ?r \<le> fst c)"
    using foldl_better [of e es] unfolding cs by blast+
  have "snd ?r \<le> m" using assms(4) mem by blast
  moreover have "m \<le> snd ?r" using dom assms(1) by fastforce
  ultimately have total: "snd ?r = m" by simp
  then have r: "?r = (fst ?r, m)" by (metis prod.collapse)
  have least: "fst ?r \<le> i" if "(i, m) \<in> set (customerSpend snap)" for i
    using dom that total by fastforce
  from res r mem least show ?thesis by metis
qed

theorem TopCustomerResolver_tie_break_witness:
  "(''C002'', 20) \<in> set (customerSpend tied_snapshot)
   \<and> (''C001'', 20) \<in> set (customerSpend tied_snapshot)
   \<and> ''C002'' \<noteq> ''C001''
   \<and> list_all (\<lambda>entry. snd entry \<le> 20) (customerSpend tied_snapshot)
   \<and> TopCustomerResolver tied_snapshot = Inr (''C001'', 20)"
proof -
  have cs: "customerSpend tied_snapshot = [(''C002'', 20), (''C003'', 10), (''C001'', 20)]"
    by (simp add: customerSpend_def tied_snapshot_def line_spend_def)
  have h1: "(''C002'', 20) \<in> set (customerSpend tied_snapshot)"
    and h2: "(''C001'', 20) \<in> set (customerSpend tied_snapshot)"
    and h4: "\<forall>entry \<in> set (customerSpend tied_snapshot). snd entry \<le> 20"
    by (simp_all add: cs)
  have h3: "''C002'' \<noteq> ''C001''" by simp
  from TopCustomerResolver_tie_break [OF h1 h2 h3 h4]
  obtain c where res: "TopCustomerResolver tied_snapshot = Inr (c, 20)"
    and mem: "(c, 20) \<in> set (customerSpend tied_snapshot)"
    and least: "\<forall>i. (i, 20) \<in> set (customerSpend tied_snapshot) \<longrightarrow> c \<le> i"
    by blast
  from least h2 have "c \<le> ''C001''" by blast
  moreover from mem have "c = ''C002'' \<or> c = ''C001''" by (auto simp: cs)
  moreover have "\<not> ''C002'' \<le> ''C001''" by simp
  ultimately have "c = ''C001''" by blast
  with res h1 h2 h3 h4 show ?thesis by (simp add: list_all_iff)
qed

end
